theory Spec2Isabelle
  imports Main "HOL-Library.Sublist"
begin

section \<open>Python values\<close>

text \<open>
  The scripts of this repository handle the values that \<^verbatim>\<open>toml.load\<close> returns and
  the arguments of the HTTP handler's logger. They are modelled by the datatype below:
  strings, integers, booleans, lists and dictionaries (a dictionary as the list of its
  items, in insertion order, looked up with \<open>map_of\<close>). TOML floats and date-times are
  not part of the model. A Python \<^verbatim>\<open>str\<close> is a \<open>string\<close>: one \<open>char\<close> per ASCII
  character, a character beyond ASCII as the bytes of its UTF-8 encoding.
\<close>

datatype pyval =
    VStr string
  | VInt int
  | VBool bool
  | VList "pyval list"
  | VDict "(string \<times> pyval) list"

datatype py_error =
    FileNotFoundError
  | IsADirectoryError
  | TomlDecodeError
  | KeyError string
  | TypeError
  | OSError
  | KeyboardInterrupt

text \<open>How a process ends: \<^verbatim>\<open>sys.exit(n)\<close> or falling off the end of the script
  (\<open>Exit 0\<close>), an exception nobody catches (the interpreter prints a traceback and the
  status is not 0), or not at all (a server that is never interrupted).\<close>

datatype outcome = Exit nat | Uncaught py_error | Running

subsection \<open>\<^verbatim>\<open>repr\<close> and \<^verbatim>\<open>str\<close>\<close>

definition backslash :: char where
  "backslash = CHR 0x5C"

definition hex_digit :: "nat \<Rightarrow> char" where
  "hex_digit n = ''0123456789abcdef'' ! (n mod 16)"

text \<open>CPython's \<^verbatim>\<open>unicode_repr\<close>, one character at a time: the quote and the backslash
  are escaped, then tab, newline and carriage return, then the other control characters
  and DEL as \<^verbatim>\<open>\xNN\<close>; every other character is copied. (CPython also escapes the
  characters beyond ASCII that are not printable; the model copies every byte from 0x80
  on.)\<close>

definition repr_char :: "char \<Rightarrow> char \<Rightarrow> string" where
  "repr_char quote c =
     (if c = quote \<or> c = backslash then [backslash, c]
      else if c = CHR 0x09 then [backslash, CHR ''t'']
      else if c = CHR 0x0A then [backslash, CHR ''n'']
      else if c = CHR 0x0D then [backslash, CHR ''r'']
      else if (of_char c :: nat) < 32 \<or> c = CHR 0x7F
        then [backslash, CHR ''x'', hex_digit (of_char c div 16), hex_digit (of_char c)]
      else [c])"

text \<open>The quote is \<^verbatim>\<open>'\<close>, unless the string holds a \<^verbatim>\<open>'\<close> and no \<^verbatim>\<open>"\<close>.\<close>

definition repr_quote :: "string \<Rightarrow> char" where
  "repr_quote s = (if CHR 0x27 \<in> set s \<and> CHR 0x22 \<notin> set s then CHR 0x22 else CHR 0x27)"

definition repr_str :: "string \<Rightarrow> string" where
  "repr_str s = repr_quote s # concat (map (repr_char (repr_quote s)) s) @ [repr_quote s]"

fun str_nat :: "nat \<Rightarrow> string" where
  "str_nat n =
     (if n < 10 then [''0123456789'' ! n]
      else str_nat (n div 10) @ [''0123456789'' ! (n mod 10)])"

declare str_nat.simps [simp del]

definition str_int :: "int \<Rightarrow> string" where
  "str_int i = (if i < 0 then CHR ''-'' # str_nat (nat (- i)) else str_nat (nat i))"

text \<open>\<^verbatim>\<open>", ".join(xs)\<close>\<close>

fun join_comma :: "string list \<Rightarrow> string" where
  "join_comma [] = []"
| "join_comma [x] = x"
| "join_comma (x # y # ys) = x @ '', '' @ join_comma (y # ys)"

primrec py_repr :: "pyval \<Rightarrow> string" where
  "py_repr (VStr s) = repr_str s"
| "py_repr (VInt i) = str_int i"
| "py_repr (VBool b) = (if b then ''True'' else ''False'')"
| "py_repr (VList xs) = ''['' @ join_comma (map py_repr xs) @ '']''"
| "py_repr (VDict kvs) =
     ''{'' @ join_comma (map (\<lambda>kv. repr_str (fst kv) @ '': '' @ snd kv) (map (map_prod id py_repr) kvs)) @ ''}''"

text \<open>\<^verbatim>\<open>str(v)\<close>, which is also what an f-string field \<^verbatim>\<open>{v}\<close> inserts.\<close>

definition py_str :: "pyval \<Rightarrow> string" where
  "py_str v = (case v of VStr s \<Rightarrow> s | _ \<Rightarrow> py_repr v)"

text \<open>\<^verbatim>\<open>str(args)\<close> of a tuple: a one-element tuple is written with a trailing comma.\<close>

definition str_tuple :: "pyval list \<Rightarrow> string" where
  "str_tuple args =
     (case args of
        [a] \<Rightarrow> ''('' @ py_repr a @ '',)''
      | _ \<Rightarrow> ''('' @ join_comma (map py_repr args) @ '')'')"

subsection \<open>\<^verbatim>\<open>==\<close>, \<^verbatim>\<open>isinstance\<close>, \<^verbatim>\<open>in\<close> and subscription\<close>

text \<open>Python's \<^verbatim>\<open>a == b\<close> on these values: a string only equals the same string,
  \<^verbatim>\<open>bool\<close> is a subclass of \<^verbatim>\<open>int\<close> (\<^verbatim>\<open>True == 1\<close>), lists are equal item by item,
  and dictionaries when they have the same number of keys and every key of the first is
  a key of the second with an equal value.\<close>

fun py_eq :: "pyval \<Rightarrow> pyval \<Rightarrow> bool" where
  "py_eq (VStr a) w = (case w of VStr b \<Rightarrow> a = b | _ \<Rightarrow> False)"
| "py_eq (VInt a) w =
     (case w of VInt b \<Rightarrow> a = b | VBool b \<Rightarrow> a = (if b then 1 else 0) | _ \<Rightarrow> False)"
| "py_eq (VBool a) w =
     (case w of VInt b \<Rightarrow> (if a then 1 else 0) = b | VBool b \<Rightarrow> a = b | _ \<Rightarrow> False)"
| "py_eq (VList xs) w =
     (case w of VList ys \<Rightarrow> list_all2 py_eq xs ys | _ \<Rightarrow> False)"
| "py_eq (VDict a) w =
     (case w of
        VDict b \<Rightarrow>
          length a = length b \<and>
          list_all (\<lambda>kv. case map_of b (fst kv) of None \<Rightarrow> False | Some v' \<Rightarrow> py_eq (snd kv) v') a
      | _ \<Rightarrow> False)"

definition isinstance_dict :: "pyval \<Rightarrow> bool" where
  "isinstance_dict v = (case v of VDict _ \<Rightarrow> True | _ \<Rightarrow> False)"

text \<open>\<^verbatim>\<open>key in v\<close>, used by the source only behind \<^verbatim>\<open>isinstance(v, dict)\<close>.\<close>

definition key_in :: "string \<Rightarrow> pyval \<Rightarrow> bool" where
  "key_in k v = (case v of VDict d \<Rightarrow> map_of d k \<noteq> None | _ \<Rightarrow> False)"

text \<open>\<^verbatim>\<open>v[k]\<close> with a string key: \<^verbatim>\<open>KeyError\<close> on a dictionary without the key,
  \<^verbatim>\<open>TypeError\<close> on a value of any other type.\<close>

definition getitem :: "pyval \<Rightarrow> string \<Rightarrow> py_error + pyval" where
  "getitem v k =
     (case v of
        VDict d \<Rightarrow> (case map_of d k of None \<Rightarrow> Inl (KeyError k) | Some x \<Rightarrow> Inr x)
      | _ \<Rightarrow> Inl TypeError)"

section \<open>The version consistency checker\<close>

text \<open>
  \<^verbatim>\<open>scripts/check-version-consistency.py\<close>. The script reads the file system through
  \<^verbatim>\<open>os.path.exists\<close> and \<^verbatim>\<open>open\<close> followed by \<^verbatim>\<open>toml.load\<close>. A path holds
  nothing, a directory, a file that \<^verbatim>\<open>toml.load\<close> rejects, or a file that it parses
  to a dictionary (the node carries the dictionary's items).
\<close>

datatype node = Directory | Malformed | Manifest "(string \<times> pyval) list"

type_synonym filesystem = "string \<rightharpoonup> node"

definition os_path_exists :: "filesystem \<Rightarrow> string \<Rightarrow> bool" where
  "os_path_exists fs p = (fs p \<noteq> None)"

text \<open>\<^verbatim>\<open>with open(p, "r") as f: return toml.load(f)\<close>\<close>

definition load_toml :: "filesystem \<Rightarrow> string \<Rightarrow> py_error + pyval" where
  "load_toml fs p =
     (case fs p of
        None \<Rightarrow> Inl FileNotFoundError
      | Some Directory \<Rightarrow> Inl IsADirectoryError
      | Some Malformed \<Rightarrow> Inl TomlDecodeError
      | Some (Manifest d) \<Rightarrow> Inr (VDict d))"

text \<open>Lines 12 to 15: \<^verbatim>\<open>workspace["workspace"]["package"]["version"]\<close> of the root
  manifest.\<close>

definition workspace_version :: "filesystem \<Rightarrow> py_error + pyval" where
  "workspace_version fs =
     (case load_toml fs ''Cargo.toml'' of
        Inl e \<Rightarrow> Inl e
      | Inr workspace \<Rightarrow>
          (case getitem workspace ''workspace'' of
             Inl e \<Rightarrow> Inl e
           | Inr ws \<Rightarrow>
               (case getitem ws ''package'' of
                  Inl e \<Rightarrow> Inl e
                | Inr pkg \<Rightarrow> getitem pkg ''version'')))"

definition crates :: "string list" where
  "crates =
     [''leptos-motion-core'',
      ''leptos-motion-dom'',
      ''leptos-motion-gestures'',
      ''leptos-motion-layout'',
      ''leptos-motion-scroll'',
      ''leptos-motion-macros'',
      ''leptos-motion'']"

definition crate_path :: "string \<Rightarrow> string" where
  "crate_path crate = ''crates/'' @ crate @ ''/Cargo.toml''"

definition warning_line :: "string \<Rightarrow> string" where
  "warning_line crate = ''Warning: '' @ crate_path crate @ '' not found, skipping...''"

definition mismatch_line :: "string \<Rightarrow> pyval \<Rightarrow> pyval \<Rightarrow> string" where
  "mismatch_line crate crate_version wv =
     ''Version mismatch: '' @ crate @ '' has '' @ py_str crate_version @
     '', workspace has '' @ py_str wv"

definition success_line :: string where
  "success_line = ''All versions are consistent!''"

text \<open>Lines 34 to 37: \<^verbatim>\<open>crate_toml["package"]["version"]\<close> of a crate's manifest.\<close>

definition read_crate_version :: "filesystem \<Rightarrow> string \<Rightarrow> py_error + pyval" where
  "read_crate_version fs crate =
     (case load_toml fs (crate_path crate) of
        Inl e \<Rightarrow> Inl e
      | Inr crate_toml \<Rightarrow>
          (case getitem crate_toml ''package'' of
             Inl e \<Rightarrow> Inl e
           | Inr pkg \<Rightarrow> getitem pkg ''version''))"

text \<open>One pass through the body of the \<^verbatim>\<open>for\<close> loop (lines 29 to 45): the lines it
  prints, and whether the loop goes on to the next crate (\<^verbatim>\<open>continue\<close>, or the end of
  the body) or the run ends there.\<close>

datatype control = Continue | Terminate outcome

definition loop_body :: "filesystem \<Rightarrow> pyval \<Rightarrow> string \<Rightarrow> string list \<times> control" where
  "loop_body fs wv crate =
     (if \<not> os_path_exists fs (crate_path crate) then ([warning_line crate], Continue)
      else
        (case read_crate_version fs crate of
           Inl e \<Rightarrow> ([], Terminate (Uncaught e))
         | Inr crate_version \<Rightarrow>
             if isinstance_dict crate_version \<and> key_in ''workspace'' crate_version
               then ([], Continue)
             else if \<not> py_eq crate_version wv
               then ([mismatch_line crate crate_version wv], Terminate (Exit 1))
             else ([], Continue)))"

text \<open>The \<^verbatim>\<open>for\<close> loop over a list of crate names.\<close>

fun for_crates :: "filesystem \<Rightarrow> pyval \<Rightarrow> string list \<Rightarrow> string list \<times> control" where
  "for_crates fs wv [] = ([], Continue)"
| "for_crates fs wv (crate # rest) =
     (case loop_body fs wv crate of
        (out, Terminate oc) \<Rightarrow> (out, Terminate oc)
      | (out, Continue) \<Rightarrow>
          (case for_crates fs wv rest of (out', c) \<Rightarrow> (out @ out', c)))"

text \<open>The script, run as \<^verbatim>\<open>__main__\<close>: what it prints on standard output and how the
  process ends. \<^verbatim>\<open>main\<close> returns 0 after the success line and the script passes it to
  \<^verbatim>\<open>sys.exit\<close>.\<close>

definition main :: "filesystem \<Rightarrow> string list \<times> outcome" where
  "main fs =
     (case workspace_version fs of
        Inl e \<Rightarrow> ([], Uncaught e)
      | Inr wv \<Rightarrow>
          (case for_crates fs wv crates of
             (out, Terminate oc) \<Rightarrow> (out, oc)
           | (out, Continue) \<Rightarrow> (out @ [success_line], Exit 0)))"

text \<open>The files a run can read: the root manifest and the manifests of the listed
  crates.\<close>

definition manifest_paths :: "string list" where
  "manifest_paths = ''Cargo.toml'' # map crate_path crates"

section \<open>The development servers\<close>

text \<open>
  \<^verbatim>\<open>examples/capability-showcase/serve.py\<close>, \<^verbatim>\<open>examples/comprehensive-demo/serve.py\<close>
  and \<^verbatim>\<open>examples/webgl-demo/server.py\<close>. Each defines a subclass of the standard
  library's \<^verbatim>\<open>http.server.SimpleHTTPRequestHandler\<close> and serves it with
  \<^verbatim>\<open>socketserver.TCPServer\<close>.
\<close>

datatype variant = CapabilityShowcase | ComprehensiveDemo | WebglDemo

subsection \<open>The request handler\<close>

text \<open>
  The attributes of a handler that the overridden methods and the inherited methods
  they call read or write: the parsed request, the buffer of header lines not yet sent
  (\<^verbatim>\<open>_headers_buffer\<close>), the connection flag, the bytes written to the socket
  (\<^verbatim>\<open>wfile\<close>), and the calls that reached the inherited \<^verbatim>\<open>log_message\<close>, each of
  which writes one line to standard error.
\<close>

record handler =
  request_version :: string
  command :: string
  path :: string
  requestline :: string
  headers_buffer :: "string list"
  close_connection :: bool
  wfile :: string
  stderr_log :: "(string \<times> pyval list) list"

definition crlf :: string where
  "crlf = [CHR 0x0D, CHR 0x0A]"

text \<open>\<^verbatim>\<open>str.lower\<close> on ASCII letters.\<close>

definition lower :: "string \<Rightarrow> string" where
  "lower s =
     map (\<lambda>c. if 65 \<le> (of_char c :: nat) \<and> (of_char c :: nat) \<le> 90
               then char_of (of_char c + (32 :: nat)) else c) s"

text \<open>
  The inherited \<^verbatim>\<open>BaseHTTPRequestHandler.send_header\<close>:
  \<^verbatim>\<open>
    if self.request_version != 'HTTP/0.9':
        self._headers_buffer.append(("%s: %s\r\n" % (keyword, value)).encode(...))
    if keyword.lower() == 'connection':
        if value.lower() == 'close': self.close_connection = True
        elif value.lower() == 'keep-alive': self.close_connection = False
  \<close>
\<close>

definition send_header :: "string \<Rightarrow> string \<Rightarrow> handler \<Rightarrow> handler" where
  "send_header keyword val h =
     (let h1 =
        (if request_version h \<noteq> ''HTTP/0.9''
         then h\<lparr>headers_buffer := headers_buffer h @ [keyword @ '': '' @ val @ crlf]\<rparr>
         else h)
      in if lower keyword = ''connection''
         then (if lower val = ''close'' then h1\<lparr>close_connection := True\<rparr>
               else if lower val = ''keep-alive'' then h1\<lparr>close_connection := False\<rparr>
               else h1)
         else h1)"

text \<open>
  The inherited \<^verbatim>\<open>flush_headers\<close> and \<^verbatim>\<open>end_headers\<close> (a buffer that does not
  exist yet is the empty list):
  \<^verbatim>\<open>
    def end_headers(self):
        if self.request_version != 'HTTP/0.9':
            self._headers_buffer.append(b"\r\n")
            self.flush_headers()
    def flush_headers(self):
        self.wfile.write(b"".join(self._headers_buffer))
        self._headers_buffer = []
  \<close>
\<close>

definition flush_headers :: "handler \<Rightarrow> handler" where
  "flush_headers h = h\<lparr>wfile := wfile h @ concat (headers_buffer h), headers_buffer := []\<rparr>"

definition super_end_headers :: "handler \<Rightarrow> handler" where
  "super_end_headers h =
     (if request_version h \<noteq> ''HTTP/0.9''
      then flush_headers (h\<lparr>headers_buffer := headers_buffer h @ [crlf]\<rparr>)
      else h)"

text \<open>The \<^verbatim>\<open>end_headers\<close> that each of the three files overrides.\<close>

fun end_headers :: "variant \<Rightarrow> handler \<Rightarrow> handler" where
  "end_headers CapabilityShowcase h =
     super_end_headers
       (send_header ''Access-Control-Allow-Headers'' ''Content-Type''
         (send_header ''Access-Control-Allow-Methods'' ''GET, POST, OPTIONS''
           (send_header ''Access-Control-Allow-Origin'' ''*'' h)))"
| "end_headers ComprehensiveDemo h =
     super_end_headers
       (send_header ''Access-Control-Allow-Headers'' ''Content-Type''
         (send_header ''Access-Control-Allow-Methods'' ''GET, POST, OPTIONS''
           (send_header ''Access-Control-Allow-Origin'' ''*'' h)))"
| "end_headers WebglDemo h =
     super_end_headers
       (send_header ''Access-Control-Allow-Headers'' ''Content-Type''
         (send_header ''Access-Control-Allow-Methods'' ''GET, POST, OPTIONS''
           (send_header ''Access-Control-Allow-Origin'' ''*''
             (send_header ''Cross-Origin-Opener-Policy'' ''same-origin''
               (send_header ''Cross-Origin-Embedder-Policy'' ''require-corp'' h)))))"


subsection \<open>Logging in the capability showcase\<close>

text \<open>The inherited \<^verbatim>\<open>log_message\<close> formats the message and writes it to standard
  error; the model records the call.\<close>

definition super_log_message :: "string \<Rightarrow> pyval list \<Rightarrow> handler \<Rightarrow> handler" where
  "super_log_message format args h = h\<lparr>stderr_log := stderr_log h @ [(format, args)]\<rparr>"

text \<open>\<^verbatim>\<open>MyHTTPRequestHandler.log_message\<close> of the capability showcase:
  \<^verbatim>\<open>if "Broken pipe" not in str(args): super().log_message(format, *args)\<close>\<close>

definition log_message :: "string \<Rightarrow> pyval list \<Rightarrow> handler \<Rightarrow> handler" where
  "log_message format args h =
     (if \<not> sublist ''Broken pipe'' (str_tuple args) then super_log_message format args h
      else h)"

text \<open>The inherited \<^verbatim>\<open>log_request\<close>, which \<^verbatim>\<open>send_response\<close> calls for every request:
  \<^verbatim>\<open>self.log_message('"%s" %s %s', self.requestline, str(code), str(size))\<close>\<close>

definition log_request :: "pyval \<Rightarrow> pyval \<Rightarrow> handler \<Rightarrow> handler" where
  "log_request code sz h =
     log_message (CHR 0x22 # ''%s'' @ CHR 0x22 # '' %s %s'')
       [VStr (requestline h), VStr (py_str code), VStr (py_str sz)] h"

subsection \<open>Content types\<close>

text \<open>
  \<^verbatim>\<open>posixpath.splitext\<close>: the extension starts at the last dot of the last path
  component, unless only dots stand before it in that component.
\<close>

definition splitext :: "string \<Rightarrow> string \<times> string" where
  "splitext p =
     (let name = rev (takeWhile (\<lambda>c. c \<noteq> CHR ''/'') (rev p));
          tail = rev (takeWhile (\<lambda>c. c \<noteq> CHR ''.'') (rev name));
          stem = take (length name - length tail - 1) name
      in if CHR ''.'' \<in> set name \<and> \<not> list_all (\<lambda>c. c = CHR ''.'') stem
         then (take (length p - length tail - 1) p, CHR ''.'' # tail)
         else (p, []))"

text \<open>
  The interpreter's MIME table (\<^verbatim>\<open>mimetypes.types_map\<close>) maps an extension to a type. Its
  content depends on the interpreter and on the system's \<^verbatim>\<open>mime.types\<close> files, so it is
  a parameter. \<^verbatim>\<open>mimetypes.add_type(type, ext)\<close> adds an entry, and
  \<^verbatim>\<open>mimetypes.guess_type\<close> looks up the lower-cased extension of a path (its handling
  of URL schemes, compression suffixes and aliases such as \<^verbatim>\<open>.tgz\<close> does not
  concern a plain path with another extension and is left out).
\<close>

type_synonym mime_table = "string \<rightharpoonup> string"

definition add_type :: "string \<Rightarrow> string \<Rightarrow> mime_table \<Rightarrow> mime_table" where
  "add_type type ext table = table(ext \<mapsto> type)"

definition mimetypes_guess_type :: "mime_table \<Rightarrow> string \<Rightarrow> string option" where
  "mimetypes_guess_type table p = table (lower (snd (splitext p)))"

text \<open>\<^verbatim>\<open>SimpleHTTPRequestHandler.extensions_map\<close>, which none of the files changes.\<close>

definition extensions_map :: mime_table where
  "extensions_map =
     [''.gz'' \<mapsto> ''application/gzip'',
      ''.Z'' \<mapsto> ''application/octet-stream'',
      ''.bz2'' \<mapsto> ''application/x-bzip2'',
      ''.xz'' \<mapsto> ''application/x-xz'']"

text \<open>
  The inherited \<^verbatim>\<open>guess_type\<close>, which gives the \<^verbatim>\<open>Content-type\<close> of a file served:
  \<^verbatim>\<open>
    base, ext = posixpath.splitext(path)
    if ext in self.extensions_map: return self.extensions_map[ext]
    ext = ext.lower()
    if ext in self.extensions_map: return self.extensions_map[ext]
    guess, _ = mimetypes.guess_type(path)
    if guess: return guess
    return 'application/octet-stream'
  \<close>
\<close>

definition guess_type :: "mime_table \<Rightarrow> string \<Rightarrow> string" where
  "guess_type table p =
     (let ext = snd (splitext p) in
      case extensions_map ext of
        Some t \<Rightarrow> t
      | None \<Rightarrow>
          (case extensions_map (lower ext) of
             Some t \<Rightarrow> t
           | None \<Rightarrow>
               (case mimetypes_guess_type table p of
                  Some guess \<Rightarrow> if guess \<noteq> [] then guess else ''application/octet-stream''
                | None \<Rightarrow> ''application/octet-stream'')))"

text \<open>What the module-level statements of each file do to the MIME table: only
  \<^verbatim>\<open>comprehensive-demo/serve.py\<close> calls \<^verbatim>\<open>mimetypes.add_type\<close>.\<close>

fun module_mime_table :: "variant \<Rightarrow> mime_table \<Rightarrow> mime_table" where
  "module_mime_table ComprehensiveDemo table = add_type ''application/wasm'' ''.wasm'' table"
| "module_mime_table CapabilityShowcase table = table"
| "module_mime_table WebglDemo table = table"

text \<open>The \<^verbatim>\<open>Content-type\<close> a variant sends for the file at a path.\<close>

definition content_type :: "variant \<Rightarrow> mime_table \<Rightarrow> string \<Rightarrow> string" where
  "content_type v table p = guess_type (module_mime_table v table) p"

subsection \<open>Starting and stopping a server\<close>

text \<open>
  What a server script meets when it runs: whether the \<^verbatim>\<open>pkg\<close> directory stands beside
  the script, whether the port can be bound, the working directory and its entries
  (the WebGL demo prints them), and how \<^verbatim>\<open>serve_forever\<close> ends. \<^verbatim>\<open>serve_forever\<close>
  only returns by an exception, \<^verbatim>\<open>KeyboardInterrupt\<close> when the operator interrupts the
  process; no script calls \<^verbatim>\<open>shutdown\<close>.
\<close>

datatype serve_result = Forever | Raises py_error

record server_env =
  pkg_exists :: bool
  port_free :: bool
  getcwd :: string
  listdir :: "string list"
  serve_forever :: serve_result

datatype listener = Unbound | Listening | Closed

text \<open>A run of a server script: the arguments of its \<^verbatim>\<open>print\<close> calls in order, the
  state of the listening socket at the end, and how the process ends.\<close>

record server_run =
  printed :: "string list"
  listener_state :: listener
  ending :: outcome

definition cross_mark :: string where
  "cross_mark = [CHR 0xE2, CHR 0x9D, CHR 0x8C]"

definition rocket :: string where
  "rocket = [CHR 0xF0, CHR 0x9F, CHR 0x9A, CHR 0x80]"

definition antenna :: string where
  "antenna = [CHR 0xF0, CHR 0x9F, CHR 0x93, CHR 0xA1]"

definition globe :: string where
  "globe = [CHR 0xF0, CHR 0x9F, CHR 0x8C, CHR 0x90]"

definition stop_button :: string where
  "stop_button = [CHR 0xE2, CHR 0x8F, CHR 0xB9, CHR 0xEF, CHR 0xB8, CHR 0x8F]"

definition waving_hand :: string where
  "waving_hand = [CHR 0xF0, CHR 0x9F, CHR 0x91, CHR 0x8B]"

text \<open>
  \<^verbatim>\<open>capability-showcase/serve.py\<close>: \<^verbatim>\<open>main\<close> leaves with status 1 when \<^verbatim>\<open>pkg\<close> is
  missing; otherwise it binds the server in a \<^verbatim>\<open>with\<close> block (the block closes the
  socket however it is left), prints, and catches \<^verbatim>\<open>KeyboardInterrupt\<close> around
  \<^verbatim>\<open>serve_forever\<close>.
\<close>

definition capability_showcase_main :: "server_env \<Rightarrow> server_run" where
  "capability_showcase_main env =
     (if \<not> pkg_exists env then
        \<lparr>printed =
           [cross_mark @ '' Error: pkg directory not found!'',
            ''Please run 'wasm-pack build --target web --out-dir pkg' first''],
         listener_state = Unbound, ending = Exit 1\<rparr>
      else if \<not> port_free env then
        \<lparr>printed = [], listener_state = Unbound, ending = Uncaught OSError\<rparr>
      else
        (let out =
           [rocket @ '' Leptos Motion Capability Showcase'',
            antenna @ '' Server running at http://localhost:8000'',
            globe @ '' Opening browser...'',
            stop_button @ ''  Press Ctrl+C to stop'']
         in case serve_forever env of
              Forever \<Rightarrow> \<lparr>printed = out, listener_state = Listening, ending = Running\<rparr>
            | Raises e \<Rightarrow>
                if e = KeyboardInterrupt then
                  \<lparr>printed = out @ [CHR 0x0A # waving_hand @ '' Server stopped''],
                   listener_state = Closed, ending = Exit 0\<rparr>
                else \<lparr>printed = out, listener_state = Closed, ending = Uncaught e\<rparr>))"

text \<open>
  \<^verbatim>\<open>comprehensive-demo/serve.py\<close>: the \<^verbatim>\<open>with\<close> block holds the \<^verbatim>\<open>print\<close> and the call
  of \<^verbatim>\<open>serve_forever\<close>, with no \<^verbatim>\<open>try\<close> around it.
\<close>

definition comprehensive_demo_main :: "server_env \<Rightarrow> server_run" where
  "comprehensive_demo_main env =
     (if \<not> port_free env then
        \<lparr>printed = [], listener_state = Unbound, ending = Uncaught OSError\<rparr>
      else
        (let out = [''Serving at http://localhost:8080'']
         in case serve_forever env of
              Forever \<Rightarrow> \<lparr>printed = out, listener_state = Listening, ending = Running\<rparr>
            | Raises e \<Rightarrow> \<lparr>printed = out, listener_state = Closed, ending = Uncaught e\<rparr>))"

text \<open>
  \<^verbatim>\<open>webgl-demo/server.py\<close>: three lines are printed before the server is bound; inside
  the \<^verbatim>\<open>with\<close> block \<^verbatim>\<open>KeyboardInterrupt\<close> is caught and answered by
  \<^verbatim>\<open>sys.exit(0)\<close>.
\<close>

definition webgl_demo_main :: "server_env \<Rightarrow> server_run" where
  "webgl_demo_main env =
     (let out =
        [''Starting server in directory: '' @ getcwd env,
         ''Files in current directory: '' @ py_str (VList (map VStr (listdir env))),
         ''Server running at http://localhost:8000/'']
      in if \<not> port_free env then
           \<lparr>printed = out, listener_state = Unbound, ending = Uncaught OSError\<rparr>
         else
           (case serve_forever env of
              Forever \<Rightarrow> \<lparr>printed = out, listener_state = Listening, ending = Running\<rparr>
            | Raises e \<Rightarrow>
                if e = KeyboardInterrupt then
                  \<lparr>printed = out @ [CHR 0x0A # ''Server stopped.''],
                   listener_state = Closed, ending = Exit 0\<rparr>
                else \<lparr>printed = out, listener_state = Closed, ending = Uncaught e\<rparr>))"

fun server_main :: "variant \<Rightarrow> server_env \<Rightarrow> server_run" where
  "server_main CapabilityShowcase env = capability_showcase_main env"
| "server_main ComprehensiveDemo env = comprehensive_demo_main env"
| "server_main WebglDemo env = webgl_demo_main env"

section \<open>Notions used by the statements\<close>

text \<open>A crate is skipped when \<^verbatim>\<open>os.path.exists\<close> fails on its manifest path (line 30).\<close>

definition skipped :: "filesystem \<Rightarrow> string \<Rightarrow> bool" where
  "skipped fs crate = (\<not> os_path_exists fs (crate_path crate))"

text \<open>The test of line 40.\<close>

definition inherits_workspace :: "pyval \<Rightarrow> bool" where
  "inherits_workspace v = (isinstance_dict v \<and> key_in ''workspace'' v)"

text \<open>A crate is consistent when its manifest exists, its version field can be read, and
  the field passes line 40 or is equal to the workspace version (line 43).\<close>

definition consistent :: "filesystem \<Rightarrow> pyval \<Rightarrow> string \<Rightarrow> bool" where
  "consistent fs wv crate =
     (os_path_exists fs (crate_path crate) \<and>
      (case read_crate_version fs crate of
         Inl e \<Rightarrow> False
       | Inr v \<Rightarrow> inherits_workspace v \<or> py_eq v wv))"

definition passes :: "filesystem \<Rightarrow> pyval \<Rightarrow> string \<Rightarrow> bool" where
  "passes fs wv crate = (skipped fs crate \<or> consistent fs wv crate)"

text \<open>The warnings printed for the skipped crates of a list, in order.\<close>

definition warnings :: "filesystem \<Rightarrow> string list \<Rightarrow> string list" where
  "warnings fs cs = map warning_line (filter (skipped fs) cs)"

section \<open>Example inputs\<close>

definition root_manifest :: "pyval \<Rightarrow> node" where
  "root_manifest v =
     Manifest
       [(''workspace'',
         VDict [(''members'', VList [VStr ''crates/*'']),
                (''package'', VDict [(''version'', v), (''edition'', VStr ''2021'')])])]"

definition member_manifest :: "string \<Rightarrow> pyval \<Rightarrow> node" where
  "member_manifest name v =
     Manifest [(''package'', VDict [(''name'', VStr name), (''version'', v)])]"

text \<open>Workspace 1.2.0; the first crate agrees, the second declares 1.1.9, the third
  0.0.1.\<close>

definition fs_mismatch :: filesystem where
  "fs_mismatch =
     [''Cargo.toml'' \<mapsto> root_manifest (VStr ''1.2.0''),
      ''crates/leptos-motion-core/Cargo.toml'' \<mapsto>
        member_manifest ''leptos-motion-core'' (VStr ''1.2.0''),
      ''crates/leptos-motion-dom/Cargo.toml'' \<mapsto>
        member_manifest ''leptos-motion-dom'' (VStr ''1.1.9''),
      ''crates/leptos-motion-gestures/Cargo.toml'' \<mapsto>
        member_manifest ''leptos-motion-gestures'' (VStr ''0.0.1'')]"

text \<open>The same, with another third manifest and a file the checker never reads.\<close>

definition fs_mismatch_changed :: filesystem where
  "fs_mismatch_changed =
     fs_mismatch
       (''crates/leptos-motion-gestures/Cargo.toml'' \<mapsto> Malformed,
        ''README.md'' \<mapsto> Malformed)"

text \<open>A crate that inherits its version: \<^verbatim>\<open>version = { workspace = true }\<close>.\<close>

definition fs_inherit :: filesystem where
  "fs_inherit =
     [''crates/leptos-motion-dom/Cargo.toml'' \<mapsto>
        member_manifest ''leptos-motion-dom'' (VDict [(''workspace'', VBool True)])]"

text \<open>Workspace 1.2.0; the first crate agrees, the third inherits, the others have no
  manifest.\<close>

definition fs_partial :: filesystem where
  "fs_partial =
     [''Cargo.toml'' \<mapsto> root_manifest (VStr ''1.2.0''),
      ''crates/leptos-motion-core/Cargo.toml'' \<mapsto>
        member_manifest ''leptos-motion-core'' (VStr ''1.2.0''),
      ''crates/leptos-motion-gestures/Cargo.toml'' \<mapsto>
        member_manifest ''leptos-motion-gestures'' (VDict [(''workspace'', VBool True)])]"

text \<open>The same, with a directory and a manifest that the checker never reads.\<close>

definition fs_partial_extra :: filesystem where
  "fs_partial_extra =
     fs_partial
       (''README.md'' \<mapsto> Directory,
        ''crates/leptos-motion-extras/Cargo.toml'' \<mapsto> Malformed)"


text \<open>Only the root manifest.\<close>

definition fs_root_only :: filesystem where
  "fs_root_only = [''Cargo.toml'' \<mapsto> root_manifest (VStr ''1.2.0'')]"


text \<open>A handler whose request line holds the text that the log filter looks for.\<close>

definition odd_handler :: handler where
  "odd_handler =
     \<lparr>request_version = ''HTTP/1.1'', command = ''GET'', path = ''/Broken pipe.html'',
      requestline = ''GET /Broken pipe.html HTTP/1.1'',
      headers_buffer = [], close_connection = True, wfile = [], stderr_log = []\<rparr>"

text \<open>A server that binds its port and is interrupted by the operator.\<close>

definition interrupted :: server_env where
  "interrupted =
     \<lparr>pkg_exists = True, port_free = True, getcwd = ''/demo'', listdir = [''index.html'', ''pkg''],
      serve_forever = Raises KeyboardInterrupt\<rparr>"

section \<open>Properties of the version consistency checker\<close>

subsection \<open>Auxiliary facts\<close>

lemma py_eq_VStr: "py_eq (VStr s) w \<longleftrightarrow> w = VStr s"
  by (cases w) auto

lemma read_crate_version_exists:
  "read_crate_version fs crate = Inr v \<Longrightarrow> os_path_exists fs (crate_path crate)"
  by (auto simp: read_crate_version_def load_toml_def os_path_exists_def split: option.splits)

lemma loop_body_skipped:
  "skipped fs crate \<Longrightarrow> loop_body fs wv crate = ([warning_line crate], Continue)"
  by (simp add: loop_body_def skipped_def)

lemma loop_body_consistent:
  "consistent fs wv crate \<Longrightarrow> loop_body fs wv crate = ([], Continue)"
  by (auto simp: loop_body_def consistent_def inherits_workspace_def split: sum.splits)

lemma loop_body_passes:
  "passes fs wv crate \<Longrightarrow>
   loop_body fs wv crate = (if skipped fs crate then [warning_line crate] else [], Continue)"
  by (auto simp: passes_def loop_body_skipped loop_body_consistent consistent_def skipped_def)

lemma loop_body_Continue_iff:
  "snd (loop_body fs wv crate) = Continue \<longleftrightarrow> passes fs wv crate"
  by (auto simp: loop_body_def passes_def consistent_def skipped_def inherits_workspace_def
      split: sum.splits)

lemma for_crates_passes:
  "list_all (passes fs wv) pre \<Longrightarrow>
   for_crates fs wv (pre @ cs) =
     (case for_crates fs wv cs of (out, c) \<Rightarrow> (warnings fs pre @ out, c))"
  by (induction pre) (auto simp: loop_body_passes warnings_def split: prod.splits)

lemma for_crates_stop:
  "loop_body fs wv m = (out, Terminate oc) \<Longrightarrow> for_crates fs wv (m # rest) = (out, Terminate oc)"
  by simp

lemma main_stops_at:
  assumes "workspace_version fs = Inr wv"
    and "crates = pre @ m # rest"
    and "list_all (passes fs wv) pre"
    and "loop_body fs wv m = (out, Terminate oc)"
  shows "main fs = (warnings fs pre @ out, oc)"
proof -
  have "for_crates fs wv crates = (warnings fs pre @ out, Terminate oc)"
    unfolding assms(2) using assms(3,4) by (simp add: for_crates_passes)
  then show ?thesis
    using assms(1) by (simp add: main_def)
qed

lemma main_all_pass:
  assumes "workspace_version fs = Inr wv" and "list_all (passes fs wv) crates"
  shows "main fs = (warnings fs crates @ [success_line], Exit 0)"
  using assms for_crates_passes[of fs wv crates "[]"] by (simp add: main_def)

text \<open>Without a workspace version (the root manifest is missing, is not valid TOML or
  lacks the field) the script ends by the exception before the loop starts.\<close>

lemma main_without_workspace_version:
  "workspace_version fs = Inl e \<Longrightarrow> main fs = ([], Uncaught e)"
  by (simp add: main_def)

lemma workspace_version_agree:
  "fs' ''Cargo.toml'' = fs ''Cargo.toml'' \<Longrightarrow> workspace_version fs' = workspace_version fs"
  by (simp add: workspace_version_def load_toml_def)

lemma read_crate_version_agree:
  "fs' (crate_path c) = fs (crate_path c) \<Longrightarrow> read_crate_version fs' c = read_crate_version fs c"
  by (simp add: read_crate_version_def load_toml_def)

lemma loop_body_agree:
  "fs' (crate_path c) = fs (crate_path c) \<Longrightarrow> loop_body fs' wv c = loop_body fs wv c"
  by (simp add: loop_body_def os_path_exists_def read_crate_version_agree[where fs' = fs' and fs = fs])

lemma skipped_agree:
  "fs' (crate_path c) = fs (crate_path c) \<Longrightarrow> skipped fs' c = skipped fs c"
  by (simp add: skipped_def os_path_exists_def)

lemma passes_agree:
  "fs' (crate_path c) = fs (crate_path c) \<Longrightarrow> passes fs' wv c = passes fs wv c"
  by (simp add: passes_def consistent_def skipped_def os_path_exists_def
      read_crate_version_agree[where fs' = fs' and fs = fs])

lemma for_crates_agree:
  "\<forall>c\<in>set cs. fs' (crate_path c) = fs (crate_path c) \<Longrightarrow> for_crates fs' wv cs = for_crates fs wv cs"
  by (induction cs) (simp_all add: loop_body_agree[where fs' = fs' and fs = fs])

lemma warnings_agree:
  "\<forall>c\<in>set cs. fs' (crate_path c) = fs (crate_path c) \<Longrightarrow> warnings fs' cs = warnings fs cs"
  unfolding warnings_def by (induction cs) (simp_all add: skipped_agree[where fs' = fs' and fs = fs])

lemma list_all_passes_agree:
  "\<forall>c\<in>set cs. fs' (crate_path c) = fs (crate_path c) \<Longrightarrow>
   list_all (passes fs' wv) cs = list_all (passes fs wv) cs"
  by (induction cs) (simp_all add: passes_agree[where fs' = fs' and fs = fs])

lemmas checker_defs =
  workspace_version_def read_crate_version_def load_toml_def getitem_def crate_path_def
  os_path_exists_def root_manifest_def member_manifest_def

subsection \<open>The first mismatch ends the run\<close>

text \<open>
  Claim C1. When the loop comes to a crate whose manifest exists and whose version field
  is a literal string different from the workspace version, the pass through the loop
  body prints the mismatch line, which names the crate, its version and the workspace
  version, and ends the run with status 1; the loop does not go on to the crates listed
  after it, whatever they are. For the whole script: when the root manifest gives the
  workspace version and every crate listed before this one is skipped or consistent (so
  that the run comes to this crate), \<open>main\<close> prints the warnings of the skipped crates
  and then the mismatch line, exits with status 1, and the run is the same on every file
  system that agrees on the root manifest and on the manifests up to this crate: no
  manifest listed later is read.
\<close>

theorem first_mismatch_aborts:
  assumes "read_crate_version fs m = Inr (VStr s)" and "VStr s \<noteq> wv"
  shows "loop_body fs wv m =
           ([''Version mismatch: '' @ m @ '' has '' @ s @ '', workspace has '' @ py_str wv],
            Terminate (Exit 1))
       \<and> for_crates fs wv (m # rest) =
           ([''Version mismatch: '' @ m @ '' has '' @ s @ '', workspace has '' @ py_str wv],
            Terminate (Exit 1))
       \<and> (workspace_version fs = Inr wv \<and> crates = pre @ m # later \<and>
            list_all (\<lambda>c. skipped fs c \<or> consistent fs wv c) pre \<longrightarrow>
            main fs =
              (warnings fs pre @
               [''Version mismatch: '' @ m @ '' has '' @ s @ '', workspace has '' @ py_str wv],
               Exit 1)
            \<and> (\<forall>fs'. (\<forall>p \<in> set (''Cargo.toml'' # map crate_path (pre @ [m])). fs' p = fs p)
                   \<longrightarrow> main fs' = main fs))"
proof -
  let ?line = "''Version mismatch: '' @ m @ '' has '' @ s @ '', workspace has '' @ py_str wv"
  have ex: "os_path_exists fs (crate_path m)"
    using assms(1) by (rule read_crate_version_exists)
  have ne: "\<not> py_eq (VStr s) wv"
    using assms(2) py_eq_VStr[of s wv] by blast
  have body: "loop_body fs wv m = ([?line], Terminate (Exit 1))"
    using ex ne assms(1)
    by (simp add: loop_body_def isinstance_dict_def mismatch_line_def py_str_def)
  have loop: "for_crates fs wv (m # rest) = ([?line], Terminate (Exit 1))"
    using body by simp
  have run: "main fs = (warnings fs pre @ [?line], Exit 1)
      \<and> (\<forall>fs'. (\<forall>p \<in> set (''Cargo.toml'' # map crate_path (pre @ [m])). fs' p = fs p)
             \<longrightarrow> main fs' = main fs)"
    if wv: "workspace_version fs = Inr wv" and split: "crates = pre @ m # later"
      and pre: "list_all (passes fs wv) pre"
  proof
    show here: "main fs = (warnings fs pre @ [?line], Exit 1)"
      using wv split pre body by (rule main_stops_at)
    show "\<forall>fs'. (\<forall>p \<in> set (''Cargo.toml'' # map crate_path (pre @ [m])). fs' p = fs p)
             \<longrightarrow> main fs' = main fs"
    proof (intro allI impI)
      fix fs'
      assume agree: "\<forall>p \<in> set (''Cargo.toml'' # map crate_path (pre @ [m])). fs' p = fs p"
      then have root: "fs' ''Cargo.toml'' = fs ''Cargo.toml''"
        and m: "fs' (crate_path m) = fs (crate_path m)"
        and before: "\<forall>c \<in> set pre. fs' (crate_path c) = fs (crate_path c)"
        by simp_all
      have wv': "workspace_version fs' = Inr wv"
        using workspace_version_agree[where fs' = fs' and fs = fs] root wv by simp
      have pre': "list_all (passes fs' wv) pre"
        using list_all_passes_agree[where fs' = fs' and fs = fs and cs = pre and wv = wv] before pre by simp
      have body': "loop_body fs' wv m = ([?line], Terminate (Exit 1))"
        using loop_body_agree[where fs' = fs' and fs = fs and c = m and wv = wv] m body by simp
      have "main fs' = (warnings fs' pre @ [?line], Exit 1)"
        using wv' split pre' body' by (rule main_stops_at)
      then show "main fs' = main fs"
        using here warnings_agree[where fs' = fs' and fs = fs and cs = pre] before by simp
    qed
  qed
  have eq: "(\<lambda>c. skipped fs c \<or> consistent fs wv c) = passes fs wv"
    by (rule ext) (simp add: passes_def)
  from body loop run show ?thesis
    unfolding eq by blast
qed

lemma fs_mismatch_root: "workspace_version fs_mismatch = Inr (VStr ''1.2.0'')"
  by (simp add: fs_mismatch_def checker_defs)

lemma fs_mismatch_core: "read_crate_version fs_mismatch ''leptos-motion-core'' = Inr (VStr ''1.2.0'')"
  by (simp add: fs_mismatch_def checker_defs)

lemma fs_mismatch_dom: "read_crate_version fs_mismatch ''leptos-motion-dom'' = Inr (VStr ''1.1.9'')"
  by (simp add: fs_mismatch_def checker_defs)

theorem first_mismatch_aborts_witness:
  "main fs_mismatch =
     ([''Version mismatch: leptos-motion-dom has 1.1.9, workspace has 1.2.0''], Exit 1)
   \<and> main fs_mismatch_changed = main fs_mismatch"
proof -
  have ne: "VStr ''1.1.9'' \<noteq> VStr ''1.2.0''"
    by simp
  have split: "crates = [''leptos-motion-core''] @ ''leptos-motion-dom'' #
      [''leptos-motion-gestures'', ''leptos-motion-layout'', ''leptos-motion-scroll'',
       ''leptos-motion-macros'', ''leptos-motion'']"
    by (simp add: crates_def)
  have ex: "os_path_exists fs_mismatch (crate_path ''leptos-motion-core'')"
    using fs_mismatch_core by (rule read_crate_version_exists)
  have pre: "list_all (\<lambda>c. skipped fs_mismatch c \<or> consistent fs_mismatch (VStr ''1.2.0'') c)
      [''leptos-motion-core'']"
    using ex by (simp add: consistent_def fs_mismatch_core)
  have w: "warnings fs_mismatch [''leptos-motion-core''] = []"
    using ex by (simp add: warnings_def skipped_def)
  have agree: "\<forall>p \<in> set (''Cargo.toml'' # map crate_path ([''leptos-motion-core''] @ [''leptos-motion-dom''])).
      fs_mismatch_changed p = fs_mismatch p"
    by (simp add: fs_mismatch_changed_def crate_path_def)
  from first_mismatch_aborts[OF fs_mismatch_dom ne, of "[]" "[''leptos-motion-core'']"
      "[''leptos-motion-gestures'', ''leptos-motion-layout'', ''leptos-motion-scroll'',
        ''leptos-motion-macros'', ''leptos-motion'']"]
    fs_mismatch_root split pre agree w
  show ?thesis
    by (simp add: py_str_def)
qed

subsection \<open>A version inherited from the workspace\<close>

text \<open>
  Claim C3. A crate whose version field is not a literal but a table with the key
  \<^verbatim>\<open>workspace\<close> (as \<^verbatim>\<open>version = { workspace = true }\<close> or \<^verbatim>\<open>version.workspace = true\<close>
  parse) is consistent: the pass through the loop body prints nothing and the loop goes
  on with the next crate, for every value \<open>wv\<close> of the workspace version.
\<close>

theorem inherited_version_is_consistent:
  assumes "read_crate_version fs crate = Inr (VDict d)" and "map_of d ''workspace'' \<noteq> None"
  shows "consistent fs wv crate
       \<and> loop_body fs wv crate = ([], Continue)
       \<and> for_crates fs wv (crate # rest) = for_crates fs wv rest"
proof -
  have "os_path_exists fs (crate_path crate)"
    using assms(1) by (rule read_crate_version_exists)
  then have c: "consistent fs wv crate"
    using assms by (simp add: consistent_def inherits_workspace_def isinstance_dict_def key_in_def)
  then have b: "loop_body fs wv crate = ([], Continue)"
    by (rule loop_body_consistent)
  then have "for_crates fs wv (crate # rest) = for_crates fs wv rest"
    by (simp split: prod.splits)
  with c b show ?thesis
    by blast
qed

lemma fs_inherit_dom:
  "read_crate_version fs_inherit ''leptos-motion-dom'' = Inr (VDict [(''workspace'', VBool True)])"
  by (simp add: fs_inherit_def checker_defs)

theorem inherited_version_is_consistent_witness:
  "loop_body fs_inherit (VStr ''1.2.0'') ''leptos-motion-dom'' = ([], Continue)
   \<and> loop_body fs_inherit (VStr ''0.0.0-anything'') ''leptos-motion-dom'' = ([], Continue)
   \<and> for_crates fs_inherit (VInt 7) [''leptos-motion-dom''] = ([], Continue)"
proof -
  have k: "map_of [(''workspace'', VBool True)] ''workspace'' \<noteq> None"
    by simp
  from inherited_version_is_consistent[OF fs_inherit_dom k, of "VStr ''1.2.0''" "[]"]
    inherited_version_is_consistent[OF fs_inherit_dom k, of "VStr ''0.0.0-anything''" "[]"]
    inherited_version_is_consistent[OF fs_inherit_dom k, of "VInt 7" "[]"]
  show ?thesis
    by simp
qed

subsection \<open>Missing manifests and the success line\<close>

text \<open>
  Claim C4. A crate whose manifest file does not exist is skipped: the pass through the
  loop body prints the warning for it and the loop goes on with the next crate, so a
  missing manifest never ends the run. And when the root manifest gives the workspace
  version and every listed crate is skipped or consistent, the script prints the
  warnings of the skipped crates, then the success line, and exits with status 0.
\<close>

theorem missing_manifest_is_skipped:
  "(\<not> os_path_exists fs (crate_path crate) \<longrightarrow>
      loop_body fs wv crate =
        ([''Warning: crates/'' @ crate @ ''/Cargo.toml not found, skipping...''], Continue)
      \<and> for_crates fs wv (crate # rest) =
        (case for_crates fs wv rest of
           (out, c) \<Rightarrow> ((''Warning: crates/'' @ crate @ ''/Cargo.toml not found, skipping...'') # out, c)))
   \<and> (workspace_version fs = Inr wv \<and>
      list_all (\<lambda>c. skipped fs c \<or> consistent fs wv c) crates \<longrightarrow>
      main fs = (warnings fs crates @ [''All versions are consistent!''], Exit 0))"
proof (intro conjI impI)
  assume "\<not> os_path_exists fs (crate_path crate)"
  then have "skipped fs crate"
    by (simp add: skipped_def)
  then have b: "loop_body fs wv crate = ([warning_line crate], Continue)"
    by (rule loop_body_skipped)
  have w: "warning_line crate = ''Warning: crates/'' @ crate @ ''/Cargo.toml not found, skipping...''"
    by (simp add: warning_line_def crate_path_def)
  show "loop_body fs wv crate =
      ([''Warning: crates/'' @ crate @ ''/Cargo.toml not found, skipping...''], Continue)"
    using b unfolding w .
  show "for_crates fs wv (crate # rest) =
        (case for_crates fs wv rest of
           (out, c) \<Rightarrow> ((''Warning: crates/'' @ crate @ ''/Cargo.toml not found, skipping...'') # out, c))"
    using b unfolding w by (simp split: prod.splits)
next
  assume a: "workspace_version fs = Inr wv \<and>
      list_all (\<lambda>c. skipped fs c \<or> consistent fs wv c) crates"
  have eq: "(\<lambda>c. skipped fs c \<or> consistent fs wv c) = passes fs wv"
    by (rule ext) (simp add: passes_def)
  have "main fs = (warnings fs crates @ [success_line], Exit 0)"
    using a unfolding eq by (simp add: main_all_pass)
  then show "main fs = (warnings fs crates @ [''All versions are consistent!''], Exit 0)"
    by (simp add: success_line_def)
qed

lemma fs_partial_root: "workspace_version fs_partial = Inr (VStr ''1.2.0'')"
  by (simp add: fs_partial_def checker_defs)

lemma fs_partial_core:
  "read_crate_version fs_partial ''leptos-motion-core'' = Inr (VStr ''1.2.0'')"
  by (simp add: fs_partial_def checker_defs)

lemma fs_partial_gestures:
  "read_crate_version fs_partial ''leptos-motion-gestures'' = Inr (VDict [(''workspace'', VBool True)])"
  by (simp add: fs_partial_def checker_defs)

lemma fs_partial_exists:
  "os_path_exists fs_partial (crate_path c) \<longleftrightarrow>
     c = ''leptos-motion-core'' \<or> c = ''leptos-motion-gestures''"
  by (auto simp: fs_partial_def os_path_exists_def crate_path_def)

lemma fs_partial_skipped:
  "skipped fs_partial c \<longleftrightarrow> c \<noteq> ''leptos-motion-core'' \<and> c \<noteq> ''leptos-motion-gestures''"
  by (simp add: skipped_def fs_partial_exists)

theorem missing_manifest_is_skipped_witness:
  "loop_body fs_partial (VStr ''1.2.0'') ''leptos-motion-dom'' =
     ([''Warning: crates/leptos-motion-dom/Cargo.toml not found, skipping...''], Continue)
   \<and> main fs_partial =
     ([''Warning: crates/leptos-motion-dom/Cargo.toml not found, skipping...'',
       ''Warning: crates/leptos-motion-layout/Cargo.toml not found, skipping...'',
       ''Warning: crates/leptos-motion-scroll/Cargo.toml not found, skipping...'',
       ''Warning: crates/leptos-motion-macros/Cargo.toml not found, skipping...'',
       ''Warning: crates/leptos-motion/Cargo.toml not found, skipping...'',
       ''All versions are consistent!''],
      Exit 0)"
proof -
  have all: "list_all (\<lambda>c. skipped fs_partial c \<or> consistent fs_partial (VStr ''1.2.0'') c) crates"
    by (simp add: crates_def fs_partial_skipped consistent_def fs_partial_exists fs_partial_core
        fs_partial_gestures inherits_workspace_def isinstance_dict_def key_in_def)
  have w: "warnings fs_partial crates =
     [''Warning: crates/leptos-motion-dom/Cargo.toml not found, skipping...'',
       ''Warning: crates/leptos-motion-layout/Cargo.toml not found, skipping...'',
       ''Warning: crates/leptos-motion-scroll/Cargo.toml not found, skipping...'',
       ''Warning: crates/leptos-motion-macros/Cargo.toml not found, skipping...'',
       ''Warning: crates/leptos-motion/Cargo.toml not found, skipping...'']"
    by (simp add: warnings_def crates_def fs_partial_skipped warning_line_def crate_path_def)
  have missing: "\<not> os_path_exists fs_partial (crate_path ''leptos-motion-dom'')"
    by (simp add: fs_partial_exists)
  from missing_manifest_is_skipped[of fs_partial "''leptos-motion-dom''" "VStr ''1.2.0''" "[]"]
    missing fs_partial_root all w
  show ?thesis
    by simp
qed

subsection \<open>The run is a function of the manifests\<close>

text \<open>
  Claim C7. The output and the exit status of the checker are determined by what the root
  manifest path and the manifest paths of the listed crates hold: two file systems that
  agree on these paths give the same printed lines and the same way of ending, whatever
  else differs between them. (The script is a function of the file system in the first
  place; that it reads nothing else is what the theorem adds.)
\<close>

theorem main_reads_only_manifests:
  assumes "\<forall>p\<in>set manifest_paths. fs' p = fs p"
  shows "main fs' = main fs"
proof -
  have root: "fs' ''Cargo.toml'' = fs ''Cargo.toml''"
    using assms by (simp add: manifest_paths_def)
  have "\<forall>c\<in>set crates. fs' (crate_path c) = fs (crate_path c)"
    using assms by (simp add: manifest_paths_def)
  then have "for_crates fs' wv crates = for_crates fs wv crates" for wv
    by (rule for_crates_agree)
  moreover have "workspace_version fs' = workspace_version fs"
    using workspace_version_agree[where fs' = fs' and fs = fs] root by simp
  ultimately show ?thesis
    by (simp add: main_def cong: sum.case_cong)
qed

theorem main_reads_only_manifests_witness:
  "main fs_partial_extra = main fs_partial \<and> fs_partial_extra \<noteq> fs_partial"
proof -
  have agree: "\<forall>p\<in>set manifest_paths. fs_partial_extra p = fs_partial p"
    by (simp add: manifest_paths_def crates_def crate_path_def fs_partial_extra_def)
  have "fs_partial_extra ''README.md'' \<noteq> fs_partial ''README.md''"
    by (simp add: fs_partial_extra_def fs_partial_def)
  then have "fs_partial_extra \<noteq> fs_partial"
    by metis
  with main_reads_only_manifests[OF agree] show ?thesis
    by simp
qed

subsection \<open>A version table without the key\<close>






subsection \<open>No manifest at all\<close>

text \<open>
  Claim C9. When none of the listed crates has a manifest file, the loop prints one
  warning for each crate of the list, in order, and ends normally; the result is the
  same for every workspace version \<open>wv\<close>, which no pass through the loop body compares
  with anything. The script, once the root manifest has given the workspace version,
  prints these warnings and the success line and exits with status 0.
\<close>

theorem all_manifests_absent:
  assumes "\<forall>c\<in>set crates. \<not> os_path_exists fs (crate_path c)"
  shows "for_crates fs wv crates = (map warning_line crates, Continue)
       \<and> length (map warning_line crates) = length crates
       \<and> (workspace_version fs = Inr wv' \<longrightarrow>
            main fs = (map warning_line crates @ [''All versions are consistent!''], Exit 0))"
proof -
  have sk: "\<forall>c\<in>set crates. skipped fs c"
    using assms by (simp add: skipped_def)
  then have w: "warnings fs crates = map warning_line crates"
    by (simp add: warnings_def)
  have p: "list_all (passes fs v) crates" for v
    using sk by (simp add: list_all_iff passes_def)
  have "for_crates fs wv (crates @ []) = (warnings fs crates @ [], Continue)"
    using p[of wv] by (simp only: for_crates_passes for_crates.simps prod.case)
  then have loop: "for_crates fs wv crates = (map warning_line crates, Continue)"
    using w by simp
  have "main fs = (map warning_line crates @ [''All versions are consistent!''], Exit 0)"
    if "workspace_version fs = Inr wv'"
    using main_all_pass[OF that p] w by (simp add: success_line_def)
  with loop show ?thesis
    by simp
qed

theorem all_manifests_absent_witness:
  "main fs_root_only =
     ([''Warning: crates/leptos-motion-core/Cargo.toml not found, skipping...'',
       ''Warning: crates/leptos-motion-dom/Cargo.toml not found, skipping...'',
       ''Warning: crates/leptos-motion-gestures/Cargo.toml not found, skipping...'',
       ''Warning: crates/leptos-motion-layout/Cargo.toml not found, skipping...'',
       ''Warning: crates/leptos-motion-scroll/Cargo.toml not found, skipping...'',
       ''Warning: crates/leptos-motion-macros/Cargo.toml not found, skipping...'',
       ''Warning: crates/leptos-motion/Cargo.toml not found, skipping...'',
       ''All versions are consistent!''],
      Exit 0)"
proof -
  have absent: "\<forall>c\<in>set crates. \<not> os_path_exists fs_root_only (crate_path c)"
    by (simp add: crates_def crate_path_def os_path_exists_def fs_root_only_def)
  have root: "workspace_version fs_root_only = Inr (VStr ''1.2.0'')"
    by (simp add: fs_root_only_def checker_defs)
  from all_manifests_absent[OF absent, of "VStr ''1.2.0''" "VStr ''1.2.0''"] root
  show ?thesis
    by (simp add: crates_def warning_line_def crate_path_def)
qed

section \<open>Properties of the development servers\<close>

subsection \<open>The CORS headers\<close>



text \<open>An \<^verbatim>\<open>HTTP/0.9\<close> response has no header section: there \<open>end_headers\<close> writes
  nothing.\<close>

lemma end_headers_http_0_9:
  "request_version h = ''HTTP/0.9'' \<Longrightarrow> wfile (end_headers v h) = wfile h"
  by (cases v) (simp_all add: send_header_def super_end_headers_def lower_def Let_def)

subsection \<open>The log filter of the capability showcase\<close>

lemma repr_quote_cases: "repr_quote s = CHR 0x27 \<or> repr_quote s = CHR 0x22"
  by (simp add: repr_quote_def)

lemma repr_char_copies_broken_pipe:
  assumes "q = CHR 0x27 \<or> q = CHR 0x22"
  shows "list_all (\<lambda>c. repr_char q c = [c]) ''Broken pipe''"
  using assms by (elim disjE) (simp_all add: repr_char_def backslash_def)

lemma repr_char_broken_pipe:
  assumes "c \<in> set ''Broken pipe''" and "q = CHR 0x27 \<or> q = CHR 0x22"
  shows "repr_char q c = [c]"
  using repr_char_copies_broken_pipe[OF assms(2)] assms(1) unfolding list_all_iff by blast

lemma concat_repr_char_copy:
  assumes "set xs \<subseteq> set ''Broken pipe''" and "q = CHR 0x27 \<or> q = CHR 0x22"
  shows "concat (map (repr_char q) xs) = xs"
  using assms(1)
proof (induction xs)
  case Nil
  then show ?case by simp
next
  case (Cons x xs)
  then have "repr_char q x = [x]"
    using assms(2) repr_char_broken_pipe[of x q] by simp
  with Cons show ?case by simp
qed

lemma sublist_repr_str:
  assumes "sublist ''Broken pipe'' s"
  shows "sublist ''Broken pipe'' (repr_str s)"
proof -
  obtain ps ss where s: "s = ps @ ''Broken pipe'' @ ss"
    using assms by (auto simp: sublist_def)
  let ?q = "repr_quote s"
  have "concat (map (repr_char ?q) ''Broken pipe'') = ''Broken pipe''"
    using repr_quote_cases[of s] by (intro concat_repr_char_copy) simp_all
  then have "repr_str s =
      (?q # concat (map (repr_char ?q) ps)) @ ''Broken pipe'' @ (concat (map (repr_char ?q) ss) @ [?q])"
    unfolding repr_str_def by (subst (3) s) (simp del: append.simps add: )
  then show ?thesis
    by (metis sublist_appendI)
qed

lemma sublist_join_comma: "x \<in> set xs \<Longrightarrow> sublist x (join_comma xs)"
proof (induction xs rule: join_comma.induct)
  case 1
  then show ?case by simp
next
  case (2 y)
  then show ?case by simp
next
  case (3 y z zs)
  show ?case
  proof (cases "x = y")
    case True
    then show ?thesis by (simp add: sublist_append_rightI del: append.simps)
  next
    case False
    then have "sublist x (join_comma (z # zs))"
      using 3 by simp
    then have "sublist x ((y @ '', '') @ join_comma (z # zs))"
      by (simp only: sublist_append) simp
    then show ?thesis by simp
  qed
qed

lemma sublist_str_tuple:
  assumes "a \<in> set args"
  shows "sublist (py_repr a) (str_tuple args)"
proof -
  have j: "sublist (py_repr a) (join_comma (map py_repr args))"
    using assms by (intro sublist_join_comma) simp
  show ?thesis
  proof (cases "\<exists>b. args = [b]")
    case True
    then have "args = [a]"
      using assms by auto
    then have "str_tuple args = ''('' @ py_repr a @ '',)''"
      by (simp add: str_tuple_def)
    then show ?thesis
      by (metis sublist_appendI)
  next
    case False
    then have "str_tuple args = ''('' @ join_comma (map py_repr args) @ '')''"
      by (auto simp: str_tuple_def split: list.splits)
    moreover have "sublist (join_comma (map py_repr args)) (''('' @ join_comma (map py_repr args) @ '')'')"
      by (rule sublist_appendI)
    ultimately show ?thesis
      using j by (metis sublist_order.order_trans)
  qed
qed

lemma broken_pipe_in_str_tuple:
  assumes "VStr s \<in> set args" and "sublist ''Broken pipe'' s"
  shows "sublist ''Broken pipe'' (str_tuple args)"
proof -
  have "sublist ''Broken pipe'' (py_repr (VStr s))"
    using assms(2) by (simp add: sublist_repr_str)
  moreover have "sublist (py_repr (VStr s)) (str_tuple args)"
    using assms(1) by (rule sublist_str_tuple)
  ultimately show ?thesis
    by (rule sublist_order.order_trans)
qed

text \<open>
  Claim C10. In the capability showcase, whether a log call prints is decided by a
  substring test on \<^verbatim>\<open>str(args)\<close>: when \<^verbatim>\<open>Broken pipe\<close> occurs in it the handler is left
  as it was (nothing is logged), otherwise the call goes to the inherited logger. The
  text is found whenever it occurs in a string argument, since \<^verbatim>\<open>repr\<close> copies its
  characters; so the ordinary log line of a request whose request line (and so whose
  path) holds the text is suppressed too.
\<close>

theorem broken_pipe_suppresses_log:
  "(sublist ''Broken pipe'' (str_tuple args) \<longrightarrow> log_message format args h = h)
   \<and> (\<not> sublist ''Broken pipe'' (str_tuple args) \<longrightarrow>
        log_message format args h = super_log_message format args h)
   \<and> (VStr s \<in> set args \<and> sublist ''Broken pipe'' s \<longrightarrow> log_message format args h = h)
   \<and> (sublist ''Broken pipe'' (requestline h) \<longrightarrow> log_request code sz h = h)"
proof (intro conjI impI)
  assume "sublist ''Broken pipe'' (str_tuple args)"
  then show "log_message format args h = h"
    by (simp add: log_message_def)
next
  assume "\<not> sublist ''Broken pipe'' (str_tuple args)"
  then show "log_message format args h = super_log_message format args h"
    by (simp add: log_message_def)
next
  assume "VStr s \<in> set args \<and> sublist ''Broken pipe'' s"
  then have "sublist ''Broken pipe'' (str_tuple args)"
    using broken_pipe_in_str_tuple by blast
  then show "log_message format args h = h"
    by (simp add: log_message_def)
next
  assume a: "sublist ''Broken pipe'' (requestline h)"
  let ?args = "[VStr (requestline h), VStr (py_str code), VStr (py_str sz)]"
  have "VStr (requestline h) \<in> set ?args"
    by simp
  then have "sublist ''Broken pipe'' (str_tuple ?args)"
    using a by (rule broken_pipe_in_str_tuple)
  then show "log_request code sz h = h"
    by (simp add: log_request_def log_message_def)
qed

lemma odd_handler_requestline: "sublist ''Broken pipe'' (requestline odd_handler)"
proof -
  have "requestline odd_handler = ''GET /'' @ ''Broken pipe'' @ ''.html HTTP/1.1''"
    by (simp add: odd_handler_def)
  then show ?thesis
    by (metis sublist_appendI)
qed

theorem broken_pipe_suppresses_log_witness:
  "log_request (VInt 200) (VStr ''-'') odd_handler = odd_handler
   \<and> stderr_log (log_request (VInt 200) (VStr ''-'') odd_handler) = []
   \<and> log_message ''code %d, message %s'' [VInt 404, VStr ''File not found''] odd_handler =
       super_log_message ''code %d, message %s'' [VInt 404, VStr ''File not found''] odd_handler
   \<and> log_message ''%s'' [VStr ''[Errno 32] Broken pipe''] odd_handler = odd_handler"
proof -
  have no: "\<not> sublist ''Broken pipe'' (str_tuple [VInt 404, VStr ''File not found''])"
    by code_simp
  have yes: "sublist ''Broken pipe'' ''[Errno 32] Broken pipe''"
    by code_simp
  have l: "stderr_log odd_handler = []"
    by (simp add: odd_handler_def)
  from broken_pipe_suppresses_log[of "[VInt 404, VStr ''File not found'']" "''code %d, message %s''"
      odd_handler "''''" "VInt 200" "VStr ''-''"]
    broken_pipe_suppresses_log[of "[VStr ''[Errno 32] Broken pipe'']" "''%s''"
      odd_handler "''[Errno 32] Broken pipe''" "VInt 200" "VStr ''-''"]
    no yes l odd_handler_requestline
  show ?thesis
    by simp
qed

subsection \<open>The content type of WebAssembly files\<close>

lemma splitext_app_bg: "splitext ''/demo/pkg/app_bg.wasm'' = (''/demo/pkg/app_bg'', ''.wasm'')"
  by (simp add: splitext_def Let_def)

lemma lower_wasm: "lower ''.wasm'' = ''.wasm''"
  by (simp add: lower_def)

text \<open>
  Claim C5. Only the comprehensive demo registers \<^verbatim>\<open>application/wasm\<close> for \<^verbatim>\<open>.wasm\<close>.
  The capability showcase and the WebGL demo leave the interpreter's MIME table as it
  is, so with a table that has no entry for \<^verbatim>\<open>.wasm\<close> (here the empty one) they answer
  a request for a \<^verbatim>\<open>.wasm\<close> file with \<^verbatim>\<open>application/octet-stream\<close>, where the
  comprehensive demo answers \<^verbatim>\<open>application/wasm\<close>.
\<close>

theorem wasm_type_registered_by_one_variant:
  "module_mime_table CapabilityShowcase table = table
   \<and> module_mime_table WebglDemo table = table
   \<and> content_type CapabilityShowcase Map.empty ''/demo/pkg/app_bg.wasm'' = ''application/octet-stream''
   \<and> content_type WebglDemo Map.empty ''/demo/pkg/app_bg.wasm'' = ''application/octet-stream''
   \<and> content_type ComprehensiveDemo Map.empty ''/demo/pkg/app_bg.wasm'' = ''application/wasm''"
  by (simp add: content_type_def guess_type_def mimetypes_guess_type_def add_type_def
      extensions_map_def splitext_app_bg lower_wasm)

subsection \<open>Interrupting a server\<close>

text \<open>
  Claim C6. When the operator interrupts a server that is bound to its port, the
  comprehensive demo closes the listener (it leaves the \<^verbatim>\<open>with\<close> block) but does not
  catch the \<^verbatim>\<open>KeyboardInterrupt\<close>: the process ends by the uncaught exception, not with
  status 0. The capability showcase and the WebGL demo catch it and exit with status 0.
\<close>

theorem interrupt_not_caught_by_comprehensive_demo:
  "ending (server_main ComprehensiveDemo
      (env\<lparr>port_free := True, serve_forever := Raises KeyboardInterrupt\<rparr>)) =
     Uncaught KeyboardInterrupt
   \<and> listener_state (server_main ComprehensiveDemo
      (env\<lparr>port_free := True, serve_forever := Raises KeyboardInterrupt\<rparr>)) = Closed
   \<and> ending (server_main CapabilityShowcase
      (env\<lparr>pkg_exists := True, port_free := True, serve_forever := Raises KeyboardInterrupt\<rparr>)) =
     Exit 0
   \<and> ending (server_main WebglDemo
      (env\<lparr>port_free := True, serve_forever := Raises KeyboardInterrupt\<rparr>)) = Exit 0
   \<and> server_main ComprehensiveDemo interrupted =
     \<lparr>printed = [''Serving at http://localhost:8080''], listener_state = Closed,
      ending = Uncaught KeyboardInterrupt\<rparr>"
  by (simp add: comprehensive_demo_main_def capability_showcase_main_def webgl_demo_main_def
      interrupted_def Let_def)

end
